theory Spec2Isabelle
  imports Main
begin

section \<open>Python string primitives used by the handlers\<close>

text \<open>
  \<^verbatim>\<open>s.split(sep)\<close> for a one-character separator: the result always has at least
  one part, and one part more than there are separators in \<open>s\<close>.
\<close>

fun py_split :: "char \<Rightarrow> string \<Rightarrow> string list" where
  "py_split sep [] = [[]]"
| "py_split sep (x # xs) =
     (if x = sep then [] # py_split sep xs
      else (case py_split sep xs of
              [] \<Rightarrow> [[x]]
            | p # ps \<Rightarrow> (x # p) # ps))"

text \<open>
  \<^verbatim>\<open>s.split(sep, 1)\<close>: at most one split, at the first separator.
\<close>

definition py_split1 :: "char \<Rightarrow> string \<Rightarrow> string list" where
  "py_split1 sep s =
     (if sep \<in> set s
      then [takeWhile (\<lambda>x. x \<noteq> sep) s, tl (dropWhile (\<lambda>x. x \<noteq> sep) s)]
      else [s])"

text \<open>\<^verbatim>\<open>sep.join(parts)\<close>.\<close>

fun py_join :: "string \<Rightarrow> string list \<Rightarrow> string" where
  "py_join sep [] = []"
| "py_join sep [p] = p"
| "py_join sep (p # q # ps) = p @ sep @ py_join sep (q # ps)"

text \<open>\<^verbatim>\<open>str(n)\<close> for a non-negative integer: its decimal digits.\<close>

definition digit_char :: "nat \<Rightarrow> char" where
  "digit_char d = ''0123456789'' ! d"

function str_nat :: "nat \<Rightarrow> string" where
  "str_nat n = (if n < 10 then [digit_char n] else str_nat (n div 10) @ [digit_char (n mod 10)])"
  by pat_completeness auto
termination
  by (relation "measure id") auto

declare str_nat.simps [simp del]

section \<open>The analyzer middleware (main.py)\<close>

subsection \<open>Configuration and reference data\<close>

definition ALGORITHM :: string where
  "ALGORITHM = ''HS256''"

definition TOKEN_EXPIRATION_MINUTES :: int where
  "TOKEN_EXPIRATION_MINUTES = 60"

definition VALID_USERNAME :: string where
  "VALID_USERNAME = ''wsadmin''"

definition VALID_PASSWORD :: string where
  "VALID_PASSWORD = ''password''"

record sample =
  patient_id :: string
  patient_name :: string
  patient_gender :: string
  patient_dob :: string
  tests :: "string list"

text \<open>The two dictionaries, as association lists in the order they are written.\<close>

definition MOCK_SAMPLES :: "(string \<times> sample) list" where
  "MOCK_SAMPLES =
     [(''S001'', \<lparr>patient_id = ''P12345'', patient_name = ''John Doe'',
                  patient_gender = ''M'', patient_dob = ''1980-01-15'',
                  tests = [''CBC'', ''GLU'', ''CRE'']\<rparr>),
      (''S002'', \<lparr>patient_id = ''P67890'', patient_name = ''Jane Smith'',
                  patient_gender = ''F'', patient_dob = ''1990-05-20'',
                  tests = [''HBA1C'', ''TSH'']\<rparr>)]"

definition MOCK_TESTS :: "(string \<times> string) list" where
  "MOCK_TESTS =
     [(''CBC'', ''Complete Blood Count''),
      (''GLU'', ''Glucose''),
      (''CRE'', ''Creatinine''),
      (''HBA1C'', ''Hemoglobin A1C''),
      (''TSH'', ''Thyroid Stimulating Hormone''),
      (''ALT'', ''Alanine Aminotransferase''),
      (''AST'', ''Aspartate Aminotransferase'')]"

subsection \<open>The token library, as the handlers see it\<close>

text \<open>
  The payload that \<^verbatim>\<open>generate_token\<close> builds and \<^verbatim>\<open>validate_token\<close> returns.
  Instants are whole seconds since the epoch, which is how the token format stores
  \<^verbatim>\<open>exp\<close> and \<^verbatim>\<open>iat\<close>.
\<close>

record jwt_payload =
  claim_sub :: string
  claim_exp :: int
  claim_iat :: int

text \<open>
  The exceptions of \<^verbatim>\<open>jwt.decode\<close>. All are instances of \<^verbatim>\<open>InvalidTokenError\<close>;
  the last constructor stands for every instance that is none of the first three.
\<close>

datatype jwt_exception =
  ExpiredSignatureError
  | DecodeError
  | InvalidSignatureError
  | InvalidTokenError

text \<open>
  \<^verbatim>\<open>jwt.encode(payload, key, algorithm)\<close> and
  \<^verbatim>\<open>jwt.decode(token, key, algorithms)\<close> belong to a library outside the repository.
  The handlers take both as parameters. Decoding reads the clock, so the current
  instant is its last argument.
\<close>

record jwt_lib =
  jwt_encode :: "jwt_payload \<Rightarrow> string \<Rightarrow> string \<Rightarrow> string"
  jwt_decode :: "string \<Rightarrow> string \<Rightarrow> string list \<Rightarrow> int \<Rightarrow> jwt_exception + jwt_payload"

record HTTPException =
  status_code :: nat
  detail :: string

subsection \<open>Token issuance and validation\<close>

text \<open>
  \<^verbatim>\<open>generate_token\<close> reads the clock twice: \<open>now1\<close> is the reading that \<^verbatim>\<open>exp\<close>
  is computed from, \<open>now2\<close> the later one stored as \<^verbatim>\<open>iat\<close>. \<open>secret_key\<close> is
  the process-wide \<^verbatim>\<open>SECRET_KEY\<close>, drawn at random when the module is loaded.
\<close>

definition generate_token :: "jwt_lib \<Rightarrow> string \<Rightarrow> int \<Rightarrow> int \<Rightarrow> string \<Rightarrow> string" where
  "generate_token lib secret_key now1 now2 username =
     (let payload = \<lparr>claim_sub = username,
                      claim_exp = now1 + TOKEN_EXPIRATION_MINUTES * 60,
                      claim_iat = now2\<rparr>
      in jwt_encode lib payload secret_key ALGORITHM)"

definition validate_token :: "jwt_lib \<Rightarrow> string \<Rightarrow> int \<Rightarrow> string \<Rightarrow> HTTPException + jwt_payload" where
  "validate_token lib secret_key now token =
     (case jwt_decode lib token secret_key [ALGORITHM] now of
        Inr payload \<Rightarrow> Inr payload
      | Inl ExpiredSignatureError \<Rightarrow> Inl \<lparr>status_code = 401, detail = ''EXPIRED_TOKEN''\<rparr>
      | Inl _ \<Rightarrow> Inl \<lparr>status_code = 401, detail = ''INVALID_LOGIN''\<rparr>)"

subsection \<open>Endpoints\<close>

definition login :: "jwt_lib \<Rightarrow> string \<Rightarrow> int \<Rightarrow> int \<Rightarrow> string \<Rightarrow> string \<Rightarrow> string" where
  "login lib secret_key now1 now2 userName password =
     (if userName = VALID_USERNAME \<and> password = VALID_PASSWORD
      then ''OK_LOGIN|'' @ generate_token lib secret_key now1 now2 userName
      else ''INVALID_LOGIN'')"

text \<open>
  The token header is \<^verbatim>\<open>Optional[str]\<close>; \<^verbatim>\<open>not token\<close> holds for \<^verbatim>\<open>None\<close> and
  for the empty string.
\<close>

definition get_pending_tests :: "jwt_lib \<Rightarrow> string \<Rightarrow> int \<Rightarrow> string \<Rightarrow> string option \<Rightarrow> string" where
  "get_pending_tests lib secret_key now sample_id token =
     (case token of
        None \<Rightarrow> ''INVALID_LOGIN''
      | Some tok \<Rightarrow>
          if tok = [] then ''INVALID_LOGIN''
          else (case validate_token lib secret_key now tok of
                  Inl e \<Rightarrow> detail e
                | Inr _ \<Rightarrow>
                    (case map_of MOCK_SAMPLES sample_id of
                       None \<Rightarrow> ''NOT_FOUND''
                     | Some smp \<Rightarrow>
                         (let test_count = length (tests smp);
                              response_parts =
                                [''QUERY_OK'', str_nat test_count, patient_id smp,
                                 patient_name smp, patient_gender smp, patient_dob smp];
                              response_parts = response_parts @ tests smp
                          in py_join ''|'' response_parts))))"

text \<open>
  One round of the loop over \<^verbatim>\<open>parts[1:]\<close>. Unpacking
  \<^verbatim>\<open>test_code, result = parts[i].split("=", 1)\<close> raises \<^verbatim>\<open>ValueError\<close> unless the
  split has exactly two parts; the handler turns that into a \<^verbatim>\<open>NOT_FOUND\<close> flag.
\<close>

definition upload_flag :: "string list \<Rightarrow> string \<Rightarrow> string" where
  "upload_flag sample_tests part =
     (if CHR ''='' \<in> set part
      then (case py_split1 (CHR ''='') part of
              [test_code, result] \<Rightarrow>
                if test_code \<in> set sample_tests then ''UPLOADED'' else ''NOT_FOUND''
            | _ \<Rightarrow> ''NOT_FOUND'')
      else ''NOT_FOUND'')"

fun upload_loop :: "string list \<Rightarrow> string list \<Rightarrow> string list \<Rightarrow> string list" where
  "upload_loop sample_tests [] status_flags = status_flags"
| "upload_loop sample_tests (part # rest) status_flags =
     upload_loop sample_tests rest (status_flags @ [upload_flag sample_tests part])"

definition upload_results :: "jwt_lib \<Rightarrow> string \<Rightarrow> int \<Rightarrow> string \<Rightarrow> string option \<Rightarrow> string" where
  "upload_results lib secret_key now path_data token =
     (case token of
        None \<Rightarrow> ''INVALID_LOGIN''
      | Some tok \<Rightarrow>
          if tok = [] then ''INVALID_LOGIN''
          else (case validate_token lib secret_key now tok of
                  Inl e \<Rightarrow> detail e
                | Inr _ \<Rightarrow>
                    (let parts = py_split (CHR ''|'') path_data in
                     if length parts < 2 then ''NOT_FOUND''
                     else (let sample_id = hd parts in
                           case map_of MOCK_SAMPLES sample_id of
                             None \<Rightarrow> ''NOT_FOUND''
                           | Some smp \<Rightarrow>
                               py_join ''|'' (upload_loop (tests smp) (tl parts) [])))))"

definition get_tests_list :: "jwt_lib \<Rightarrow> string \<Rightarrow> int \<Rightarrow> string option \<Rightarrow> string" where
  "get_tests_list lib secret_key now token =
     (case token of
        None \<Rightarrow> ''INVALID_LOGIN''
      | Some tok \<Rightarrow>
          if tok = [] then ''INVALID_LOGIN''
          else (case validate_token lib secret_key now tok of
                  Inl e \<Rightarrow> detail e
                | Inr _ \<Rightarrow>
                    if MOCK_TESTS = [] then ''NOT_FOUND''
                    else (let test_count = length MOCK_TESTS;
                              response_parts = [''QUERY_OK'', str_nat test_count];
                              response_parts = response_parts @
                                map (\<lambda>(test_code, test_name). test_code @ [CHR 0x09] @ test_name)
                                  MOCK_TESTS
                          in py_join ''|'' response_parts)))"

subsection \<open>A model of the token library\<close>

text \<open>
  The primitives of a signed-token format: reading a compact token into its payload and
  signature (\<open>None\<close> when the text is malformed), writing one, computing a signature
  under a key and an algorithm, and checking one against the accepted algorithms.
\<close>

record jws_codec =
  jws_unpack :: "string \<Rightarrow> (jwt_payload \<times> string) option"
  jws_pack :: "jwt_payload \<Rightarrow> string \<Rightarrow> string"
  jws_sign :: "string \<Rightarrow> string \<Rightarrow> jwt_payload \<Rightarrow> string"
  jws_verify :: "string \<Rightarrow> string list \<Rightarrow> jwt_payload \<Rightarrow> string \<Rightarrow> bool"

text \<open>
  Modelled from the spec: the token library behind \<^verbatim>\<open>jwt.encode\<close> and
  \<^verbatim>\<open>jwt.decode\<close> is imported by main.py and is not part of the repository's
  sources. Section 4.1 of the spec gives the outcomes of decoding: the token is
  rejected when it is malformed or its signature does not verify, it is expired when
  the signature verifies and the current time is at or past the expiry instant, and
  otherwise the claims (subject, issued-at, expires-at) are returned. Section 3: a
  token is a signed encoding of those three claims.
\<close>

definition spec_jwt_lib :: "jws_codec \<Rightarrow> jwt_lib" where
  "spec_jwt_lib c =
     \<lparr>jwt_encode = (\<lambda>payload key alg. jws_pack c payload (jws_sign c key alg payload)),
      jwt_decode = (\<lambda>token key algs now.
         case jws_unpack c token of
           None \<Rightarrow> Inl DecodeError
         | Some (payload, sg) \<Rightarrow>
             if \<not> jws_verify c key algs payload sg then Inl InvalidSignatureError
             else if claim_exp payload \<le> now then Inl ExpiredSignatureError
             else Inr payload)\<rparr>"

text \<open>
  The round trip asked of a token library: a token it encoded under a key decodes under
  the same key to its payload, at every instant from the issued-at instant of the
  payload on and before its expiry instant. Nothing is asked at an instant before
  issued-at, where a library may reject the token as not yet valid.
\<close>

definition jwt_roundtrip :: "jwt_lib \<Rightarrow> string \<Rightarrow> bool" where
  "jwt_roundtrip lib key =
     (\<forall>payload now. claim_iat payload \<le> now \<and> now < claim_exp payload \<longrightarrow>
        jwt_decode lib (jwt_encode lib payload key ALGORITHM) key [ALGORITHM] now = Inr payload)"

subsection \<open>A small concrete codec\<close>

text \<open>
  A length-prefixed text format with numbers in unary, used to run the handlers on
  concrete tokens. Its signature is the key, the algorithm and the payload written out.
\<close>

definition put_nat :: "nat \<Rightarrow> string \<Rightarrow> string" where
  "put_nat n rest = replicate n (CHR ''1'') @ CHR ''0'' # rest"

fun get_nat :: "string \<Rightarrow> (nat \<times> string) option" where
  "get_nat [] = None"
| "get_nat (c # cs) =
     (if c = CHR ''0'' then Some (0, cs)
      else if c = CHR ''1'' then
        (case get_nat cs of None \<Rightarrow> None | Some (n, rest) \<Rightarrow> Some (Suc n, rest))
      else None)"

definition put_int :: "int \<Rightarrow> string \<Rightarrow> string" where
  "put_int z rest = (if z < 0 then CHR ''-'' else CHR ''+'') # put_nat (nat \<bar>z\<bar>) rest"

fun get_int :: "string \<Rightarrow> (int \<times> string) option" where
  "get_int [] = None"
| "get_int (c # cs) =
     (case get_nat cs of
        None \<Rightarrow> None
      | Some (n, rest) \<Rightarrow>
          if c = CHR ''-'' then Some (- int n, rest)
          else if c = CHR ''+'' then Some (int n, rest)
          else None)"

definition put_str :: "string \<Rightarrow> string \<Rightarrow> string" where
  "put_str s rest = put_nat (length s) (s @ rest)"

definition get_str :: "string \<Rightarrow> (string \<times> string) option" where
  "get_str token =
     (case get_nat token of
        None \<Rightarrow> None
      | Some (n, rest) \<Rightarrow> if length rest < n then None else Some (take n rest, drop n rest))"

definition demo_pack :: "jwt_payload \<Rightarrow> string \<Rightarrow> string" where
  "demo_pack payload sg =
     put_str (claim_sub payload) (put_int (claim_exp payload) (put_int (claim_iat payload) sg))"

definition demo_unpack :: "string \<Rightarrow> (jwt_payload \<times> string) option" where
  "demo_unpack token =
     (case get_str token of
        None \<Rightarrow> None
      | Some (s, r1) \<Rightarrow>
          (case get_int r1 of
             None \<Rightarrow> None
           | Some (e, r2) \<Rightarrow>
               (case get_int r2 of
                  None \<Rightarrow> None
                | Some (i, sg) \<Rightarrow> Some (\<lparr>claim_sub = s, claim_exp = e, claim_iat = i\<rparr>, sg))))"

definition demo_sign :: "string \<Rightarrow> string \<Rightarrow> jwt_payload \<Rightarrow> string" where
  "demo_sign key alg payload = put_str key (put_str alg (demo_pack payload []))"

definition demo_codec :: jws_codec where
  "demo_codec =
     \<lparr>jws_unpack = demo_unpack,
      jws_pack = demo_pack,
      jws_sign = demo_sign,
      jws_verify = (\<lambda>key algs payload sg. sg \<in> set (map (\<lambda>alg. demo_sign key alg payload) algs))\<rparr>"

definition demo_lib :: jwt_lib where
  "demo_lib = spec_jwt_lib demo_codec"

text \<open>
  A second library over the same codec, used to run the handlers on concrete tokens: it
  decodes as above and also rejects, as not yet valid, a token whose issued-at instant
  lies in the future.
\<close>

definition iat_checking_lib :: "jws_codec \<Rightarrow> jwt_lib" where
  "iat_checking_lib c =
     \<lparr>jwt_encode = (\<lambda>payload key alg. jws_pack c payload (jws_sign c key alg payload)),
      jwt_decode = (\<lambda>token key algs now.
         case jws_unpack c token of
           None \<Rightarrow> Inl DecodeError
         | Some (payload, sg) \<Rightarrow>
             if \<not> jws_verify c key algs payload sg then Inl InvalidSignatureError
             else if now < claim_iat payload then Inl InvalidTokenError
             else if claim_exp payload \<le> now then Inl ExpiredSignatureError
             else Inr payload)\<rparr>"

definition strict_lib :: jwt_lib where
  "strict_lib = iat_checking_lib demo_codec"

section \<open>The HL7 server (server.py)\<close>

subsection \<open>JSON values and responses\<close>

datatype json =
  JNull
  | JBool bool
  | JInt int
  | JString string
  | JArray "json list"
  | JObject "(string \<times> json) list"

text \<open>A handler returns \<^verbatim>\<open>jsonify(...), status\<close>.\<close>

type_synonym response = "json \<times> nat"

definition json_field :: "json \<Rightarrow> string \<Rightarrow> json option" where
  "json_field j k = (case j of JObject kvs \<Rightarrow> map_of kvs k | _ \<Rightarrow> None)"

subsection \<open>Parsed messages\<close>

text \<open>
  A parsed message is a list of segments and a segment a list of fields, the segment's
  name first. A field is kept as the text \<^verbatim>\<open>str(field)\<close> gives.
\<close>

type_synonym hl7_segment = "string list"

type_synonym hl7_message = "hl7_segment list"

text \<open>
  \<^verbatim>\<open>hl7.parse\<close> and \<^verbatim>\<open>message.segment\<close> belong to a library outside the repository
  and are parameters of the handlers. \<open>hl7_parse\<close> is \<open>None\<close> when parsing raises.
  \<open>hl7_segment\<close> is \<open>None\<close> when the lookup raises, \<open>Some None\<close> when it returns
  Python's \<^verbatim>\<open>None\<close>, and \<open>Some (Some seg)\<close> when it returns a segment.
\<close>

record hl7_lib =
  hl7_parse :: "string \<Rightarrow> hl7_message option"
  hl7_segment :: "hl7_message \<Rightarrow> string \<Rightarrow> hl7_segment option option"

text \<open>
  The truth value of what the lookup returned: \<^verbatim>\<open>None\<close> and an empty segment are
  false.
\<close>

definition truthy :: "hl7_segment option \<Rightarrow> bool" where
  "truthy found = (case found of None \<Rightarrow> False | Some seg \<Rightarrow> seg \<noteq> [])"

text \<open>
  \<^verbatim>\<open>found[i]\<close>: indexing \<^verbatim>\<open>None\<close> raises \<^verbatim>\<open>TypeError\<close> and an index out of range
  raises \<^verbatim>\<open>IndexError\<close>. \<open>None\<close> stands for the exception.
\<close>

definition segment_field :: "hl7_segment option \<Rightarrow> nat \<Rightarrow> string option" where
  "segment_field found i =
     (case found of
        None \<Rightarrow> None
      | Some seg \<Rightarrow> if i < length seg then Some (seg ! i) else None)"

text \<open>
  \<^verbatim>\<open>[str(seg[0]) for seg in message]\<close>; \<^verbatim>\<open>seg[0]\<close> raises on an empty segment.
\<close>

definition segment_names :: "hl7_message \<Rightarrow> string list option" where
  "segment_names message = (if [] \<in> set message then None else Some (map hd message))"

subsection \<open>The message store and the handlers\<close>

record message_record =
  timestamp :: string
  message_type :: string
  raw_message :: string
  segment_count :: nat

text \<open>
  The module-level list \<^verbatim>\<open>received_messages\<close> is passed in and returned. The request
  body is the outcome of \<^verbatim>\<open>request.data.decode('utf-8')\<close>: \<open>None\<close> when the bytes
  are not UTF-8 and decoding raises, the text otherwise. \<open>now\<close> is
  \<^verbatim>\<open>datetime.now(timezone.utc).isoformat()\<close>, read once per request. Every exception
  inside the \<^verbatim>\<open>try\<close> block ends in the handler's \<^verbatim>\<open>except\<close> response.
\<close>

definition receive_failed :: response where
  "receive_failed = (JObject [(''error'', JString ''Failed to parse HL7 message'')], 400)"

definition receive_hl7_message ::
  "hl7_lib \<Rightarrow> string \<Rightarrow> string option \<Rightarrow> message_record list \<Rightarrow> response \<times> message_record list" where
  "receive_hl7_message lib now body received_messages =
     (case body of
        None \<Rightarrow> (receive_failed, received_messages)
      | Some message_data \<Rightarrow>
          if message_data = [] then
            ((JObject [(''error'', JString ''No message data provided'')], 400), received_messages)
          else
            (case hl7_parse lib message_data of
               None \<Rightarrow> (receive_failed, received_messages)
             | Some message \<Rightarrow>
                 (case hl7_segment lib message ''MSH'' of
                    None \<Rightarrow> (receive_failed, received_messages)
                  | Some found \<Rightarrow>
                      (case (if truthy found then segment_field found 9 else Some ''Unknown'') of
                         None \<Rightarrow> (receive_failed, received_messages)
                       | Some mtype \<Rightarrow>
                           (let message_record =
                                  \<lparr>timestamp = now,
                                   message_type = mtype,
                                   raw_message = message_data,
                                   segment_count = length message\<rparr>
                            in ((JObject [(''status'', JString ''success''),
                                          (''message_type'', JString mtype),
                                          (''segment_count'', JInt (int (length message))),
                                          (''timestamp'', JString (timestamp message_record))],
                                 200),
                                received_messages @ [message_record]))))))"

definition validate_failed :: response where
  "validate_failed =
     (JObject [(''valid'', JBool False), (''error'', JString ''Invalid HL7 message format'')], 200)"

definition validate_hl7_message ::
  "hl7_lib \<Rightarrow> string option \<Rightarrow> message_record list \<Rightarrow> response \<times> message_record list" where
  "validate_hl7_message lib body received_messages =
     (case body of
        None \<Rightarrow> (validate_failed, received_messages)
      | Some message_data \<Rightarrow>
          if message_data = [] then
            ((JObject [(''valid'', JBool False), (''error'', JString ''No message data provided'')],
              400),
             received_messages)
          else
            (case hl7_parse lib message_data of
               None \<Rightarrow> (validate_failed, received_messages)
             | Some message \<Rightarrow>
                 (case hl7_segment lib message ''MSH'' of
                    None \<Rightarrow> (validate_failed, received_messages)
                  | Some found \<Rightarrow>
                      (case (if truthy found then map_option JString (segment_field found 9)
                             else Some JNull) of
                         None \<Rightarrow> (validate_failed, received_messages)
                       | Some mtype \<Rightarrow>
                           (case segment_names message of
                              None \<Rightarrow> (validate_failed, received_messages)
                            | Some names \<Rightarrow>
                                ((JObject [(''valid'', JBool True),
                                           (''message_type'', mtype),
                                           (''segment_count'', JInt (int (length message))),
                                           (''has_msh'', JBool (found \<noteq> None)),
                                           (''segments'', JArray (map JString names))],
                                  200),
                                 received_messages))))))"

subsection \<open>A model of the message parser\<close>

text \<open>
  Modelled from the spec: the field delimiter of \<^verbatim>\<open>hl7.parse\<close>, a library function
  that is not part of the repository's sources. Section 3 of the spec: the delimiters
  are the characters the MSH segment declares, by default the bar for fields. The field
  delimiter is the character that follows the name of the MSH segment.
\<close>

definition field_delimiter :: "string \<Rightarrow> char" where
  "field_delimiter raw_text =
     (if take 3 raw_text = ''MSH'' \<and> 3 < length raw_text then raw_text ! 3 else CHR ''|'')"

text \<open>
  Modelled from the spec: how \<^verbatim>\<open>hl7.parse\<close>, not part of the repository's sources,
  splits one line. Section 4.3: each line is split on the field delimiter into a segment
  name plus fields. Section 3: the message type is MSH field 9, as \<^verbatim>\<open>ADT^A01\<close> is in
  the spec's example message; that is HL7's numbering, which counts the field delimiter
  itself as the first field of MSH. So an MSH line gives the name, the delimiter, and
  then the fields that follow it.
\<close>

definition split_segment :: "char \<Rightarrow> string \<Rightarrow> hl7_segment" where
  "split_segment delim line =
     (if take 3 line = ''MSH'' \<and> 3 < length line \<and> line ! 3 = delim
      then ''MSH'' # [delim] # py_split delim (drop 4 line)
      else py_split delim line)"

text \<open>
  Modelled from the spec: \<^verbatim>\<open>hl7.parse\<close>, imported by server.py from a library that is
  not part of the repository's sources. Section 4.3 of the spec: the text is split on
  the segment terminator (carriage return); each non-empty line is split on the field
  delimiter; parsing fails when the text is empty or does not give at least one segment.
\<close>

definition spec_hl7_parse :: "string \<Rightarrow> hl7_message option" where
  "spec_hl7_parse raw_text =
     (let lines = filter (\<lambda>l. l \<noteq> []) (py_split (CHR 0x0D) raw_text);
          segments = map (split_segment (field_delimiter raw_text)) lines
      in if segments = [] then None else Some segments)"

text \<open>
  Modelled from the spec: \<^verbatim>\<open>message.segment\<close>, a method of the same library.
  Section 4.3 of the spec: the message type is read from the MSH segment if one exists,
  and is reported as unknown or null otherwise. The lookup gives the first segment of
  the name asked for, and nothing when there is none.
\<close>

definition spec_hl7_segment :: "hl7_message \<Rightarrow> string \<Rightarrow> hl7_segment option option" where
  "spec_hl7_segment message segment_id =
     Some (find (\<lambda>seg. seg \<noteq> [] \<and> hd seg = segment_id) message)"

text \<open>
  Modelled from the spec: the two library functions above, as the handlers take them.
\<close>

definition spec_hl7_lib :: hl7_lib where
  "spec_hl7_lib = \<lparr>hl7_parse = spec_hl7_parse, hl7_segment = spec_hl7_segment\<rparr>"

text \<open>
  The message of the spec's segment and field fidelity property: an MSH segment and an
  EVN segment, each ended by a carriage return.
\<close>

definition example_message :: string where
  "example_message =
     ''MSH|^~'' @ [CHR 0x5C] @ ''&|A|B|C|D|20250101120000||ADT^A01|MSG1|P|2.5'' @ [CHR 0x0D]
       @ ''EVN|A01'' @ [CHR 0x0D]"

section \<open>Facts about the primitives\<close>

lemma py_split_nonempty: "py_split c s \<noteq> []"
  by (induction s) (auto split: list.splits)

lemma py_split_no_sep: "c \<notin> set x \<Longrightarrow> py_split c x = [x]"
  by (induction x) auto

lemma py_split_append_sep: "c \<notin> set x \<Longrightarrow> py_split c (x @ c # rest) = x # py_split c rest"
  by (induction x) auto

lemma py_join_Cons: "py_join sep (x # xs) = x @ concat (map (\<lambda>t. sep @ t) xs)"
  by (induction xs arbitrary: x) auto

lemma py_split_concat:
  "\<forall>x \<in> set (x0 # xs). c \<notin> set x \<Longrightarrow>
     py_split c (x0 @ concat (map ((#) c) xs)) = x0 # xs"
  by (induction xs arbitrary: x0) (auto simp: py_split_no_sep py_split_append_sep)

text \<open>Splitting undoes joining, as long as no part holds the separator.\<close>

lemma py_split_join:
  "xs \<noteq> [] \<Longrightarrow> \<forall>x \<in> set xs. c \<notin> set x \<Longrightarrow> py_split c (py_join [c] xs) = xs"
  by (cases xs) (simp_all add: py_join_Cons py_split_concat del: py_join.simps)

lemma validate_token_cases:
  "validate_token lib k now tok =
     (case jwt_decode lib tok k [ALGORITHM] now of
        Inr payload \<Rightarrow> Inr payload
      | Inl ex \<Rightarrow> Inl \<lparr>status_code = 401,
                        detail = (if ex = ExpiredSignatureError then ''EXPIRED_TOKEN''
                                  else ''INVALID_LOGIN'')\<rparr>)"
  by (simp add: validate_token_def split: sum.splits jwt_exception.splits)

text \<open>
  \<^verbatim>\<open>split("=", 1)\<close> always gives two parts when the text holds an equals sign, so the
  \<^verbatim>\<open>ValueError\<close> branch is never taken and the flag depends on the text before the
  first equals sign only.
\<close>

lemma upload_flag_eq:
  "upload_flag ts p =
     (if CHR ''='' \<in> set p \<and> takeWhile (\<lambda>c. c \<noteq> CHR ''='') p \<in> set ts
      then ''UPLOADED'' else ''NOT_FOUND'')"
  by (simp add: upload_flag_def py_split1_def)

lemma upload_loop_map: "upload_loop ts parts acc = acc @ map (upload_flag ts) parts"
  by (induction parts arbitrary: acc) auto

lemma upload_flag_no_bar: "CHR ''|'' \<notin> set (upload_flag ts p)"
  by (simp add: upload_flag_eq)

subsection \<open>The concrete codec round-trips\<close>

lemma get_put_nat: "get_nat (put_nat n rest) = Some (n, rest)"
  by (induction n) (auto simp: put_nat_def)

lemma get_put_int: "get_int (put_int z rest) = Some (z, rest)"
  by (simp add: put_int_def get_put_nat)

lemma get_put_str: "get_str (put_str s rest) = Some (s, rest)"
  by (simp add: put_str_def get_str_def get_put_nat)

lemma demo_unpack_pack: "demo_unpack (demo_pack p sg) = Some (p, sg)"
  by (simp add: demo_unpack_def demo_pack_def get_put_str get_put_int)

text \<open>
  Both libraries round-trip over every codec that reads back what it wrote and accepts
  the signatures it made.
\<close>

lemma spec_jwt_lib_roundtrip:
  assumes "\<And>p sg. jws_unpack c (jws_pack c p sg) = Some (p, sg)"
    and "\<And>p. jws_verify c key [ALGORITHM] p (jws_sign c key ALGORITHM p)"
  shows "jwt_roundtrip (spec_jwt_lib c) key"
  using assms by (simp add: jwt_roundtrip_def spec_jwt_lib_def)


lemma demo_roundtrip: "jwt_roundtrip demo_lib key"
  unfolding demo_lib_def
  by (rule spec_jwt_lib_roundtrip) (simp_all add: demo_codec_def demo_unpack_pack)


text \<open>The second library does reject a token before its issued-at instant.\<close>

lemma strict_rejects_early:
  "now < now2 \<Longrightarrow>
   validate_token strict_lib key now (generate_token strict_lib key now1 now2 u) =
     Inl \<lparr>status_code = 401, detail = ''INVALID_LOGIN''\<rparr>"
  by (simp add: validate_token_cases generate_token_def strict_lib_def iat_checking_lib_def
      demo_codec_def demo_unpack_pack Let_def)

lemma demo_token_nonempty: "generate_token demo_lib key now1 now2 u \<noteq> []"
  by (simp add: generate_token_def demo_lib_def spec_jwt_lib_def demo_codec_def demo_pack_def
      put_str_def put_nat_def)

lemma demo_decode_generated:
  "jwt_decode demo_lib (generate_token demo_lib key now1 now2 u) key [ALGORITHM] now =
     (if now1 + 60 * 60 \<le> now then Inl ExpiredSignatureError
      else Inr \<lparr>claim_sub = u, claim_exp = now1 + 60 * 60, claim_iat = now2\<rparr>)"
  by (simp add: generate_token_def demo_lib_def spec_jwt_lib_def demo_codec_def demo_unpack_pack
      TOKEN_EXPIRATION_MINUTES_def Let_def)

lemma demo_decode_junk: "jwt_decode demo_lib ''junk'' key algs now = Inl DecodeError"
  by (simp add: demo_lib_def spec_jwt_lib_def demo_codec_def demo_unpack_def get_str_def)

lemma demo_validate_generated:
  "now < now1 + 60 * 60 \<Longrightarrow>
   validate_token demo_lib key now (generate_token demo_lib key now1 now2 u) =
     Inr \<lparr>claim_sub = u, claim_exp = now1 + 60 * 60, claim_iat = now2\<rparr>"
  by (simp add: validate_token_cases demo_decode_generated)


lemma str_nat_small:
  "str_nat (Suc (Suc 0)) = ''2''" "str_nat (Suc (Suc (Suc 0))) = ''3''"
  by (simp_all add: str_nat.simps digit_char_def)

lemma example_parse:
  "spec_hl7_parse example_message =
     Some [[''MSH'', ''|'', ''^~'' @ [CHR 0x5C] @ ''&'', ''A'', ''B'', ''C'', ''D'',
            ''20250101120000'', [], ''ADT^A01'', ''MSG1'', ''P'', ''2.5''],
           [''EVN'', ''A01'']]"
  by (simp add: example_message_def spec_hl7_parse_def field_delimiter_def split_segment_def Let_def)

lemma example_message_nonempty: "example_message \<noteq> []"
  by (simp add: example_message_def)

section \<open>Login\<close>

text \<open>
  C1. For every pair of query parameters, \<^verbatim>\<open>login\<close> returns \<^verbatim>\<open>OK_LOGIN|\<close> followed by
  a freshly issued token if and only if the user name is \<^verbatim>\<open>wsadmin\<close> and the password
  is \<^verbatim>\<open>password\<close>. The token is what the library encodes, under the secret key and
  HS256, for the payload built at that moment: the user name as subject, 60 minutes past
  the first clock reading as expiry, the second clock reading as issued-at. Every other
  pair gets exactly \<^verbatim>\<open>INVALID_LOGIN\<close>, whichever of the two is wrong. This holds
  whatever the token library does.
\<close>

theorem login_result:
  "login lib secret_key now1 now2 userName password =
     (if userName = ''wsadmin'' \<and> password = ''password''
      then ''OK_LOGIN|''
             @ jwt_encode lib
                 \<lparr>claim_sub = ''wsadmin'', claim_exp = now1 + 60 * 60, claim_iat = now2\<rparr>
                 secret_key ''HS256''
      else ''INVALID_LOGIN'')
   \<and> ((\<exists>tok. login lib secret_key now1 now2 userName password = ''OK_LOGIN|'' @ tok)
        = (userName = ''wsadmin'' \<and> password = ''password''))
   \<and> ((login lib secret_key now1 now2 userName password = ''INVALID_LOGIN'')
        = (\<not> (userName = ''wsadmin'' \<and> password = ''password'')))"
  by (simp add: login_def generate_token_def VALID_USERNAME_def VALID_PASSWORD_def
      TOKEN_EXPIRATION_MINUTES_def ALGORITHM_def)

text \<open>
  On the concrete library, where a token can be read back: the login at clock readings
  100 and 101 returns a token that carries exactly these instants, and a wrong password
  or a wrong user name gets \<^verbatim>\<open>INVALID_LOGIN\<close>.
\<close>

theorem login_result_witness:
  "login demo_lib ''k'' 100 101 ''wsadmin'' ''password''
     = ''OK_LOGIN|''
         @ jwt_encode demo_lib \<lparr>claim_sub = ''wsadmin'', claim_exp = 3700, claim_iat = 101\<rparr>
             ''k'' ''HS256''
   \<and> map_option fst (demo_unpack
        (jwt_encode demo_lib \<lparr>claim_sub = ''wsadmin'', claim_exp = 3700, claim_iat = 101\<rparr>
           ''k'' ''HS256''))
       = Some \<lparr>claim_sub = ''wsadmin'', claim_exp = 3700, claim_iat = 101\<rparr>
   \<and> login demo_lib ''k'' 100 101 ''wsadmin'' ''letmein'' = ''INVALID_LOGIN''
   \<and> login demo_lib ''k'' 100 101 ''root'' ''password'' = ''INVALID_LOGIN''"
proof -
  have u: "map_option fst (demo_unpack
        (jwt_encode demo_lib \<lparr>claim_sub = ''wsadmin'', claim_exp = 3700, claim_iat = 101\<rparr>
           ''k'' ''HS256''))
       = Some \<lparr>claim_sub = ''wsadmin'', claim_exp = 3700, claim_iat = 101\<rparr>"
    by (simp add: demo_lib_def spec_jwt_lib_def demo_codec_def demo_unpack_pack)
  show ?thesis
    using login_result[of demo_lib "''k''" 100 101 "''wsadmin''" "''password''"]
      login_result[of demo_lib "''k''" 100 101 "''wsadmin''" "''letmein''"]
      login_result[of demo_lib "''k''" 100 101 "''root''" "''password''"]
      u
    by simp
qed

section \<open>Tokens\<close>




text \<open>
  C3. With the token library as the spec describes it, validation of a presented token
  fails with \<^verbatim>\<open>EXPIRED_TOKEN\<close> exactly when the token is well-formed, its signature
  verifies and the current time is at or past its expiry instant; it fails with
  \<^verbatim>\<open>INVALID_LOGIN\<close> exactly when the token is malformed or its signature does not
  verify; otherwise it returns the claims the token carries. An absent token never
  reaches validation: each gated endpoint answers \<^verbatim>\<open>INVALID_LOGIN\<close>.
\<close>

theorem validate_token_outcomes:
  "validate_token (spec_jwt_lib c) secret_key now token =
     (case jws_unpack c token of
        None \<Rightarrow> Inl \<lparr>status_code = 401, detail = ''INVALID_LOGIN''\<rparr>
      | Some (payload, sg) \<Rightarrow>
          if \<not> jws_verify c secret_key [ALGORITHM] payload sg
          then Inl \<lparr>status_code = 401, detail = ''INVALID_LOGIN''\<rparr>
          else if claim_exp payload \<le> now
          then Inl \<lparr>status_code = 401, detail = ''EXPIRED_TOKEN''\<rparr>
          else Inr payload)
   \<and> ((validate_token (spec_jwt_lib c) secret_key now token =
          Inl \<lparr>status_code = 401, detail = ''EXPIRED_TOKEN''\<rparr>)
        = (\<exists>payload sg. jws_unpack c token = Some (payload, sg)
             \<and> jws_verify c secret_key [ALGORITHM] payload sg \<and> claim_exp payload \<le> now))
   \<and> ((validate_token (spec_jwt_lib c) secret_key now token =
          Inl \<lparr>status_code = 401, detail = ''INVALID_LOGIN''\<rparr>)
        = (jws_unpack c token = None
             \<or> (\<exists>payload sg. jws_unpack c token = Some (payload, sg)
                   \<and> \<not> jws_verify c secret_key [ALGORITHM] payload sg)))
   \<and> ((validate_token (spec_jwt_lib c) secret_key now token = Inr claims)
        = (\<exists>sg. jws_unpack c token = Some (claims, sg)
             \<and> jws_verify c secret_key [ALGORITHM] claims sg \<and> now < claim_exp claims))
   \<and> get_pending_tests (spec_jwt_lib c) secret_key now sample_id None = ''INVALID_LOGIN''
   \<and> upload_results (spec_jwt_lib c) secret_key now path_data None = ''INVALID_LOGIN''
   \<and> get_tests_list (spec_jwt_lib c) secret_key now None = ''INVALID_LOGIN''"
  by (auto simp: validate_token_def spec_jwt_lib_def get_pending_tests_def upload_results_def
      get_tests_list_def split: option.splits)

theorem validate_token_outcomes_witness:
  "jws_unpack demo_codec ''junk'' = None
   \<and> validate_token (spec_jwt_lib demo_codec) ''k'' 0 ''junk''
       = Inl \<lparr>status_code = 401, detail = ''INVALID_LOGIN''\<rparr>
   \<and> jws_unpack demo_codec (demo_pack \<lparr>claim_sub = ''a'', claim_exp = 5, claim_iat = 1\<rparr> ''forged'')
       = Some (\<lparr>claim_sub = ''a'', claim_exp = 5, claim_iat = 1\<rparr>, ''forged'')
   \<and> validate_token (spec_jwt_lib demo_codec) ''k'' 2
        (demo_pack \<lparr>claim_sub = ''a'', claim_exp = 5, claim_iat = 1\<rparr> ''forged'')
       = Inl \<lparr>status_code = 401, detail = ''INVALID_LOGIN''\<rparr>"
proof -
  have u: "jws_unpack demo_codec ''junk'' = None"
    by (simp add: demo_codec_def demo_unpack_def get_str_def)
  have v: "jws_unpack demo_codec (demo_pack \<lparr>claim_sub = ''a'', claim_exp = 5, claim_iat = 1\<rparr> ''forged'')
             = Some (\<lparr>claim_sub = ''a'', claim_exp = 5, claim_iat = 1\<rparr>, ''forged'')"
    by (simp add: demo_codec_def demo_unpack_pack)
  have w: "\<not> jws_verify demo_codec ''k'' [ALGORITHM]
               \<lparr>claim_sub = ''a'', claim_exp = 5, claim_iat = 1\<rparr> ''forged''"
    by (simp add: demo_codec_def demo_sign_def put_str_def put_nat_def)
  show ?thesis
    using validate_token_outcomes[of demo_codec "''k''" 0 "''junk''"]
      validate_token_outcomes[of demo_codec "''k''" 2
        "demo_pack \<lparr>claim_sub = ''a'', claim_exp = 5, claim_iat = 1\<rparr> ''forged''"]
      u v w
    by simp
qed

section \<open>The gate in front of the analyzer endpoints\<close>

text \<open>
  C4. On each of the three gated endpoints, for every input and every token library:
  with no token header the response is exactly \<^verbatim>\<open>INVALID_LOGIN\<close>; with a token that
  the library rejects, the response is \<^verbatim>\<open>EXPIRED_TOKEN\<close> when the rejection is an
  expiry and \<^verbatim>\<open>INVALID_LOGIN\<close> for any other rejection. The response is fixed by the
  token alone: it is the same for every sample id and every upload text, so no sample
  lookup, upload parsing or test-directory access has a part in it.
\<close>

theorem auth_gate:
  "get_pending_tests lib k now sample_id None = ''INVALID_LOGIN''
   \<and> upload_results lib k now path_data None = ''INVALID_LOGIN''
   \<and> get_tests_list lib k now None = ''INVALID_LOGIN''
   \<and> (\<forall>ex. jwt_decode lib tok k [ALGORITHM] now = Inl ex \<longrightarrow>
         get_pending_tests lib k now sample_id (Some tok) =
           (if tok \<noteq> [] \<and> ex = ExpiredSignatureError then ''EXPIRED_TOKEN'' else ''INVALID_LOGIN'')
         \<and> upload_results lib k now path_data (Some tok) =
           (if tok \<noteq> [] \<and> ex = ExpiredSignatureError then ''EXPIRED_TOKEN'' else ''INVALID_LOGIN'')
         \<and> get_tests_list lib k now (Some tok) =
           (if tok \<noteq> [] \<and> ex = ExpiredSignatureError then ''EXPIRED_TOKEN'' else ''INVALID_LOGIN''))"
  by (simp add: get_pending_tests_def upload_results_def get_tests_list_def validate_token_cases)

theorem auth_gate_witness:
  "get_pending_tests demo_lib ''k'' 0 ''S001'' None = ''INVALID_LOGIN''
   \<and> upload_results demo_lib ''k'' 0 ''S001|CBC=1'' None = ''INVALID_LOGIN''
   \<and> get_tests_list demo_lib ''k'' 0 None = ''INVALID_LOGIN''
   \<and> jwt_decode demo_lib ''junk'' ''k'' [ALGORITHM] 0 = Inl DecodeError
   \<and> get_pending_tests demo_lib ''k'' 0 ''S001'' (Some ''junk'') = ''INVALID_LOGIN''
   \<and> upload_results demo_lib ''k'' 0 ''S001|CBC=1'' (Some ''junk'') = ''INVALID_LOGIN''
   \<and> get_tests_list demo_lib ''k'' 0 (Some ''junk'') = ''INVALID_LOGIN''
   \<and> jwt_decode demo_lib (generate_token demo_lib ''k'' 0 0 ''wsadmin'') ''k'' [ALGORITHM] 3600
        = Inl ExpiredSignatureError
   \<and> get_pending_tests demo_lib ''k'' 3600 ''S001''
        (Some (generate_token demo_lib ''k'' 0 0 ''wsadmin'')) = ''EXPIRED_TOKEN''
   \<and> upload_results demo_lib ''k'' 3600 ''S001|CBC=1''
        (Some (generate_token demo_lib ''k'' 0 0 ''wsadmin'')) = ''EXPIRED_TOKEN''
   \<and> get_tests_list demo_lib ''k'' 3600
        (Some (generate_token demo_lib ''k'' 0 0 ''wsadmin'')) = ''EXPIRED_TOKEN''"
proof -
  have j: "jwt_decode demo_lib ''junk'' ''k'' [ALGORITHM] 0 = Inl DecodeError"
    by (rule demo_decode_junk)
  have e: "jwt_decode demo_lib (generate_token demo_lib ''k'' 0 0 ''wsadmin'') ''k'' [ALGORITHM] 3600
             = Inl ExpiredSignatureError"
    by (simp add: demo_decode_generated)
  have n: "generate_token demo_lib ''k'' 0 0 ''wsadmin'' \<noteq> []"
    by (rule demo_token_nonempty)
  show ?thesis
    using auth_gate[of demo_lib "''k''" 0 "''S001''" "''S001|CBC=1''" "''junk''"]
      auth_gate[of demo_lib "''k''" 3600 "''S001''" "''S001|CBC=1''"
        "generate_token demo_lib ''k'' 0 0 ''wsadmin''"]
      j e n
    by simp
qed

text \<open>
  C10. A token header that is present but empty is treated as an absent one on each of
  the three gated endpoints: the response is exactly \<^verbatim>\<open>INVALID_LOGIN\<close>, whatever the
  token library would have said about the empty text, so neither the signature nor the
  expiry is looked at.
\<close>

theorem empty_token_is_absent:
  "get_pending_tests lib k now sample_id (Some []) = ''INVALID_LOGIN''
   \<and> upload_results lib k now path_data (Some []) = ''INVALID_LOGIN''
   \<and> get_tests_list lib k now (Some []) = ''INVALID_LOGIN''
   \<and> get_pending_tests lib k now sample_id (Some []) = get_pending_tests lib k now sample_id None
   \<and> upload_results lib k now path_data (Some []) = upload_results lib k now path_data None
   \<and> get_tests_list lib k now (Some []) = get_tests_list lib k now None"
  by (simp add: get_pending_tests_def upload_results_def get_tests_list_def)

theorem empty_token_is_absent_witness:
  "get_pending_tests \<lparr>jwt_encode = (\<lambda>p k a. ''t''),
                       jwt_decode = (\<lambda>t k a n. Inr \<lparr>claim_sub = ''wsadmin'', claim_exp = 1, claim_iat = 0\<rparr>)\<rparr>
     ''k'' 0 ''S001'' (Some []) = ''INVALID_LOGIN''
   \<and> upload_results \<lparr>jwt_encode = (\<lambda>p k a. ''t''),
                      jwt_decode = (\<lambda>t k a n. Inr \<lparr>claim_sub = ''wsadmin'', claim_exp = 1, claim_iat = 0\<rparr>)\<rparr>
     ''k'' 0 ''S001|CBC=1'' (Some []) = ''INVALID_LOGIN''
   \<and> get_tests_list \<lparr>jwt_encode = (\<lambda>p k a. ''t''),
                      jwt_decode = (\<lambda>t k a n. Inr \<lparr>claim_sub = ''wsadmin'', claim_exp = 1, claim_iat = 0\<rparr>)\<rparr>
     ''k'' 0 (Some []) = ''INVALID_LOGIN''"
  using empty_token_is_absent[of
      "\<lparr>jwt_encode = (\<lambda>p k a. ''t''),
        jwt_decode = (\<lambda>t k a n. Inr \<lparr>claim_sub = ''wsadmin'', claim_exp = 1, claim_iat = 0\<rparr>)\<rparr>"
      "''k''" 0 "''S001''" "''S001|CBC=1''"]
  by simp

section \<open>The analyzer endpoints behind the gate\<close>

text \<open>
  C6. For every authenticated call to \<^verbatim>\<open>tests_lis_download\<close>: when the sample id is
  known, the response is \<^verbatim>\<open>QUERY_OK\<close>, the number of the sample's tests, its patient
  id, patient name, gender and date of birth, and then its test codes in their stored
  order, all joined by bars; when the sample id is unknown the response is exactly
  \<^verbatim>\<open>NOT_FOUND\<close>.
\<close>

theorem pending_tests_response:
  assumes "tok \<noteq> []" and "validate_token lib k now tok = Inr claims"
  shows "get_pending_tests lib k now sample_id (Some tok) =
     (case map_of MOCK_SAMPLES sample_id of
        None \<Rightarrow> ''NOT_FOUND''
      | Some smp \<Rightarrow>
          ''QUERY_OK|'' @ str_nat (length (tests smp)) @ ''|'' @ patient_id smp @ ''|''
            @ patient_name smp @ ''|'' @ patient_gender smp @ ''|'' @ patient_dob smp
            @ concat (map (\<lambda>t. ''|'' @ t) (tests smp)))"
  using assms
  by (simp add: get_pending_tests_def Let_def py_join_Cons del: py_join.simps split: option.splits)

theorem pending_tests_response_witness:
  "get_pending_tests demo_lib ''k'' 0 ''S001'' (Some (generate_token demo_lib ''k'' 0 0 ''wsadmin''))
     = ''QUERY_OK|3|P12345|John Doe|M|1980-01-15|CBC|GLU|CRE''
   \<and> get_pending_tests demo_lib ''k'' 0 ''S002'' (Some (generate_token demo_lib ''k'' 0 0 ''wsadmin''))
     = ''QUERY_OK|2|P67890|Jane Smith|F|1990-05-20|HBA1C|TSH''
   \<and> get_pending_tests demo_lib ''k'' 0 ''S003'' (Some (generate_token demo_lib ''k'' 0 0 ''wsadmin''))
     = ''NOT_FOUND''"
proof -
  have n: "generate_token demo_lib ''k'' 0 0 ''wsadmin'' \<noteq> []"
    by (rule demo_token_nonempty)
  have v: "validate_token demo_lib ''k'' 0 (generate_token demo_lib ''k'' 0 0 ''wsadmin'') =
             Inr \<lparr>claim_sub = ''wsadmin'', claim_exp = 0 + 60 * 60, claim_iat = 0\<rparr>"
    by (rule demo_validate_generated) simp
  show ?thesis
    using pending_tests_response[OF n v, of "''S001''"]
      pending_tests_response[OF n v, of "''S002''"]
      pending_tests_response[OF n v, of "''S003''"]
    by (simp add: MOCK_SAMPLES_def str_nat_small)
qed

text \<open>
  C5, as the code has it. For every authenticated call to the results upload with raw
  text \<open>r\<close>: when splitting \<open>r\<close> on the bar gives fewer than two parts, or the first
  part is not a known sample id, the response is exactly \<^verbatim>\<open>NOT_FOUND\<close>. Otherwise
  the response is the bar-joined sequence of one flag for each later part, in the order
  submitted (splitting the response on the bar gives back exactly these flags), where a
  part is flagged \<^verbatim>\<open>UPLOADED\<close> if and only if it holds at least one equals sign and
  the text before its first equals sign is one of the sample's test codes, and
  \<^verbatim>\<open>NOT_FOUND\<close> otherwise.
\<close>

theorem upload_results_flags:
  assumes "tok \<noteq> []" and "validate_token lib k now tok = Inr claims"
  shows "upload_results lib k now r (Some tok) =
     (if length (py_split (CHR ''|'') r) < 2 then ''NOT_FOUND''
      else case map_of MOCK_SAMPLES (hd (py_split (CHR ''|'') r)) of
             None \<Rightarrow> ''NOT_FOUND''
           | Some smp \<Rightarrow>
               py_join ''|''
                 (map (\<lambda>part. if CHR ''='' \<in> set part
                                  \<and> takeWhile (\<lambda>c. c \<noteq> CHR ''='') part \<in> set (tests smp)
                               then ''UPLOADED'' else ''NOT_FOUND'')
                    (tl (py_split (CHR ''|'') r))))
   \<and> (\<forall>smp. 2 \<le> length (py_split (CHR ''|'') r) \<longrightarrow>
          map_of MOCK_SAMPLES (hd (py_split (CHR ''|'') r)) = Some smp \<longrightarrow>
          py_split (CHR ''|'') (upload_results lib k now r (Some tok)) =
            map (\<lambda>part. if CHR ''='' \<in> set part
                             \<and> takeWhile (\<lambda>c. c \<noteq> CHR ''='') part \<in> set (tests smp)
                          then ''UPLOADED'' else ''NOT_FOUND'')
              (tl (py_split (CHR ''|'') r)))"
proof -
  let ?parts = "py_split (CHR ''|'') r"
  have resp: "upload_results lib k now r (Some tok) =
     (if length ?parts < 2 then ''NOT_FOUND''
      else case map_of MOCK_SAMPLES (hd ?parts) of
             None \<Rightarrow> ''NOT_FOUND''
           | Some smp \<Rightarrow> py_join ''|'' (map (upload_flag (tests smp)) (tl ?parts)))"
    using assms by (simp add: upload_results_def upload_loop_map Let_def split: option.splits)
  have flag: "upload_flag ts = (\<lambda>part. if CHR ''='' \<in> set part
                                  \<and> takeWhile (\<lambda>c. c \<noteq> CHR ''='') part \<in> set ts
                               then ''UPLOADED'' else ''NOT_FOUND'')" for ts
    by (rule ext) (rule upload_flag_eq)
  have first: "upload_results lib k now r (Some tok) =
     (if length ?parts < 2 then ''NOT_FOUND''
      else case map_of MOCK_SAMPLES (hd ?parts) of
             None \<Rightarrow> ''NOT_FOUND''
           | Some smp \<Rightarrow>
               py_join ''|''
                 (map (\<lambda>part. if CHR ''='' \<in> set part
                                  \<and> takeWhile (\<lambda>c. c \<noteq> CHR ''='') part \<in> set (tests smp)
                               then ''UPLOADED'' else ''NOT_FOUND'')
                    (tl ?parts)))"
    unfolding resp flag ..
  have second: "py_split (CHR ''|'') (upload_results lib k now r (Some tok)) =
            map (upload_flag (tests smp)) (tl ?parts)"
    if len: "2 \<le> length ?parts" and known: "map_of MOCK_SAMPLES (hd ?parts) = Some smp" for smp
  proof -
    from len have ne: "map (upload_flag (tests smp)) (tl ?parts) \<noteq> []"
      by (cases ?parts) auto
    have nb: "\<forall>x \<in> set (map (upload_flag (tests smp)) (tl ?parts)). CHR ''|'' \<notin> set x"
      by (auto simp: upload_flag_no_bar)
    have "upload_results lib k now r (Some tok) =
            py_join [CHR ''|''] (map (upload_flag (tests smp)) (tl ?parts))"
      using len known by (simp add: resp)
    then show ?thesis
      using py_split_join[OF ne nb] by simp
  qed
  show ?thesis
    using first second unfolding flag by blast
qed

theorem upload_results_flags_witness:
  "upload_results demo_lib ''k'' 0 ''S001|CBC=5.1|XYZ=2|GLU|CRE=1=2''
     (Some (generate_token demo_lib ''k'' 0 0 ''wsadmin'')) = ''UPLOADED|NOT_FOUND|NOT_FOUND|UPLOADED''
   \<and> upload_results demo_lib ''k'' 0 ''S001''
     (Some (generate_token demo_lib ''k'' 0 0 ''wsadmin'')) = ''NOT_FOUND''
   \<and> upload_results demo_lib ''k'' 0 ''S999|CBC=5.1''
     (Some (generate_token demo_lib ''k'' 0 0 ''wsadmin'')) = ''NOT_FOUND''"
proof -
  have n: "generate_token demo_lib ''k'' 0 0 ''wsadmin'' \<noteq> []"
    by (rule demo_token_nonempty)
  have v: "validate_token demo_lib ''k'' 0 (generate_token demo_lib ''k'' 0 0 ''wsadmin'') =
             Inr \<lparr>claim_sub = ''wsadmin'', claim_exp = 0 + 60 * 60, claim_iat = 0\<rparr>"
    by (rule demo_validate_generated) simp
  show ?thesis
    using upload_results_flags[OF n v, of "''S001|CBC=5.1|XYZ=2|GLU|CRE=1=2''"]
      upload_results_flags[OF n v, of "''S001''"]
      upload_results_flags[OF n v, of "''S999|CBC=5.1''"]
    by (simp add: MOCK_SAMPLES_def)
qed

text \<open>
  C5 as stated asks for exactly one equals sign in an uploaded part. The handler splits
  at the first equals sign only (\<^verbatim>\<open>split("=", 1)\<close>), so a part with two equals signs
  whose leading text is a test code of the sample is flagged \<^verbatim>\<open>UPLOADED\<close>.
\<close>

theorem upload_two_equals_counterexample:
  "upload_results demo_lib ''k'' 0 ''S001|CBC=1=2''
     (Some (generate_token demo_lib ''k'' 0 0 ''wsadmin'')) = ''UPLOADED''
   \<and> py_split (CHR ''|'') ''S001|CBC=1=2'' = [''S001'', ''CBC=1=2'']
   \<and> count_list ''CBC=1=2'' (CHR ''='') = 2"
proof -
  have n: "generate_token demo_lib ''k'' 0 0 ''wsadmin'' \<noteq> []"
    by (rule demo_token_nonempty)
  have v: "validate_token demo_lib ''k'' 0 (generate_token demo_lib ''k'' 0 0 ''wsadmin'') =
             Inr \<lparr>claim_sub = ''wsadmin'', claim_exp = 0 + 60 * 60, claim_iat = 0\<rparr>"
    by (rule demo_validate_generated) simp
  show ?thesis
    using n v
    by (simp add: upload_results_def upload_flag_def py_split1_def MOCK_SAMPLES_def)
qed

section \<open>The HL7 endpoints\<close>

text \<open>
  C7, as the code has it. For an empty request body the receive endpoint responds with
  status 400 and a JSON body with an \<^verbatim>\<open>error\<close> field, and the validate endpoint
  responds with status 400 as well, with a JSON body holding \<^verbatim>\<open>valid: false\<close> and an
  \<^verbatim>\<open>error\<close> field. Neither touches the store, and the parser is not called.
\<close>

theorem empty_body_responses:
  "receive_hl7_message lib now (Some []) store =
     ((JObject [(''error'', JString ''No message data provided'')], 400), store)
   \<and> validate_hl7_message lib (Some []) store =
     ((JObject [(''valid'', JBool False), (''error'', JString ''No message data provided'')], 400),
      store)
   \<and> json_field (fst (fst (receive_hl7_message lib now (Some []) store))) ''error''
       = Some (JString ''No message data provided'')
   \<and> json_field (fst (fst (validate_hl7_message lib (Some []) store))) ''valid''
       = Some (JBool False)"
  by (simp add: receive_hl7_message_def validate_hl7_message_def json_field_def)

theorem empty_body_responses_witness:
  "snd (fst (receive_hl7_message spec_hl7_lib ''2025-01-01T12:00:00+00:00'' (Some []) [])) = 400
   \<and> snd (fst (validate_hl7_message spec_hl7_lib (Some []) [])) = 400
   \<and> json_field (fst (fst (validate_hl7_message spec_hl7_lib (Some []) []))) ''valid''
       = Some (JBool False)"
  using empty_body_responses[of spec_hl7_lib "''2025-01-01T12:00:00+00:00''" "[]"]
  by (simp add: json_field_def)

text \<open>
  C7 as stated has the validate endpoint answer an empty body with status 200. Its
  guard for the empty body returns 400; only the \<^verbatim>\<open>except\<close> branch returns 200.
\<close>

theorem validate_empty_body_counterexample:
  "snd (fst (validate_hl7_message spec_hl7_lib (Some []) [])) \<noteq> 200"
  by (simp add: validate_hl7_message_def)

text \<open>
  C8. With the parser as the spec describes it, the validate endpoint answers the
  example message (an MSH segment with message type \<^verbatim>\<open>ADT^A01\<close>, then an EVN segment)
  with status 200 and a report whose message type is \<^verbatim>\<open>ADT^A01\<close>, whose segment
  count is 2, whose \<^verbatim>\<open>has_msh\<close> is true and whose segments are MSH and EVN.
\<close>

theorem validate_example_message:
  "validate_hl7_message spec_hl7_lib (Some example_message) store =
   ((JObject [(''valid'', JBool True),
              (''message_type'', JString ''ADT^A01''),
              (''segment_count'', JInt 2),
              (''has_msh'', JBool True),
              (''segments'', JArray [JString ''MSH'', JString ''EVN''])],
     200),
    store)"
  by (simp add: validate_hl7_message_def spec_hl7_lib_def example_parse example_message_nonempty
      spec_hl7_segment_def truthy_def segment_field_def segment_names_def)

theorem validate_example_message_witness:
  "json_field (fst (fst (validate_hl7_message spec_hl7_lib (Some example_message) [])))
     ''message_type'' = Some (JString ''ADT^A01'')
   \<and> json_field (fst (fst (validate_hl7_message spec_hl7_lib (Some example_message) [])))
     ''segment_count'' = Some (JInt 2)
   \<and> json_field (fst (fst (validate_hl7_message spec_hl7_lib (Some example_message) [])))
     ''has_msh'' = Some (JBool True)
   \<and> json_field (fst (fst (validate_hl7_message spec_hl7_lib (Some example_message) [])))
     ''segments'' = Some (JArray [JString ''MSH'', JString ''EVN''])"
  using validate_example_message[of "[]"]
  by (simp add: json_field_def)



end
